theory Spec2Isabelle
  imports Main "HOL-Library.Sublist"
begin

section \<open>Python values used by the program\<close>

text \<open>
  Strings are byte strings (a file name is its UTF-8 encoding). An exception is a value:
  its class name and its message, the message being what \<^verbatim>\<open>str(exc)\<close> prints. Only
  instances of \<^verbatim>\<open>Exception\<close> are modelled (\<^verbatim>\<open>OSError\<close> and its subclasses from the file
  system, \<^verbatim>\<open>IndexError\<close>, Pillow's and Tk's errors).
\<close>

datatype pyexc = PyExc (exc_class: string) (exc_msg: string)

text \<open>
  \<^verbatim>\<open>str.lower\<close>: the ASCII capitals go to their small letters. Every other byte is kept;
  the bytes of a multi-byte UTF-8 sequence are all above ASCII, and none of the recognised
  suffixes has such a byte.
\<close>

definition lower_char :: "char \<Rightarrow> char" where
  "lower_char c =
     (case map_of (zip ''ABCDEFGHIJKLMNOPQRSTUVWXYZ'' ''abcdefghijklmnopqrstuvwxyz'') c of
        None \<Rightarrow> c
      | Some d \<Rightarrow> d)"

definition lower :: "string \<Rightarrow> string" where
  "lower s = map lower_char s"

text \<open>\<^verbatim>\<open>s.endswith(suffixes)\<close> with a tuple of suffixes: some suffix of the tuple ends \<open>s\<close>.\<close>

definition endswith1 :: "string \<Rightarrow> string \<Rightarrow> bool" where
  "endswith1 s suf = (length suf \<le> length s \<and> drop (length s - length suf) s = suf)"

definition endswith :: "string \<Rightarrow> string list \<Rightarrow> bool" where
  "endswith s sufs = list_ex (endswith1 s) sufs"

text \<open>
  \<^verbatim>\<open>os.path.join(a, b)\<close> with two components, as \<^verbatim>\<open>posixpath.join\<close> computes it: an absolute
  \<open>b\<close> or an empty \<open>a\<close> gives \<open>b\<close>; otherwise the two are put together with one separator.
\<close>

definition startswith_sep :: "string \<Rightarrow> bool" where
  "startswith_sep b = (case b of [] \<Rightarrow> False | c # _ \<Rightarrow> c = CHR ''/'')"

definition endswith_sep :: "string \<Rightarrow> bool" where
  "endswith_sep a = (case rev a of [] \<Rightarrow> False | c # _ \<Rightarrow> c = CHR ''/'')"

definition path_join :: "string \<Rightarrow> string \<Rightarrow> string" where
  "path_join a b =
     (if startswith_sep b \<or> a = [] then b
      else if endswith_sep a then a @ b
      else a @ ''/'' @ b)"

section \<open>The world outside the program\<close>

text \<open>
  What the libraries answer is a parameter of the model. \<open>listdir\<close> is \<^verbatim>\<open>os.listdir\<close>: the
  entries of a directory in the order the system gives them, or the \<^verbatim>\<open>OSError\<close> it raises.
  \<open>randbelow\<close> is the generator behind \<^verbatim>\<open>random.choice\<close>: from a generator state and a bound
  it gives the index drawn and the next state. \<open>image_open\<close> is \<^verbatim>\<open>Image.open\<close>: the mode
  of the file (Pillow's mode string: \<^verbatim>\<open>"RGB"\<close>, \<^verbatim>\<open>"P"\<close> for a palette image, \<^verbatim>\<open>"1"\<close> for a
  bilevel one, ...) and its pixel dimensions, or the exception raised. The three \<open>_error\<close>
  fields say whether \<^verbatim>\<open>Image.resize\<close>, \<^verbatim>\<open>ImageTk.PhotoImage\<close> and the label's
  \<^verbatim>\<open>config(image=...)\<close> raise.

  A picture is a Pillow image: the file it was opened from, its mode, its size, and the
  filter with which it was last resampled (\<open>None\<close> for pixels never resampled).
\<close>

datatype resample = NEAREST | BOX | BILINEAR | HAMMING | BICUBIC | LANCZOS

record picture =
  pic_file :: string
  pic_mode :: string
  pic_size :: "nat \<times> nat"
  pic_filter :: "resample option"

record photo =
  photo_name :: nat
  photo_pic :: picture

record 'g env =
  listdir :: "string \<Rightarrow> pyexc + string list"
  randbelow :: "'g \<Rightarrow> nat \<Rightarrow> nat \<times> 'g"
  image_open :: "string \<Rightarrow> pyexc + string \<times> nat \<times> nat"
  resize_error :: "picture \<Rightarrow> pyexc option"
  photo_error :: "picture \<Rightarrow> pyexc option"
  config_error :: "photo \<Rightarrow> pyexc option"

text \<open>
  The state the program changes outside its own objects: the state of the global random
  generator, the lines printed to the console, and the number of Tk images created so far
  (the counter from which \<^verbatim>\<open>PhotoImage\<close> names its images).
\<close>

record 'g world =
  rng :: 'g
  console :: "string list"
  tk_images :: nat

section \<open>The Selector (randomImageSellector2.py)\<close>

definition image_folder :: string where
  "image_folder = ''enter your image folder''"

definition valid_extensions :: "string list" where
  "valid_extensions = [''.jpg'', ''.jpeg'', ''.png'', ''.gif'', ''.bmp'']"

text \<open>
  \<^verbatim>\<open>random.choice(seq)\<close> is \<^verbatim>\<open>seq[self._randbelow(len(seq))]\<close>, and raises \<^verbatim>\<open>IndexError\<close> on an
  empty sequence. An index out of range raises too.
\<close>

definition choice :: "'g env \<Rightarrow> 'g world \<Rightarrow> 'a list \<Rightarrow> pyexc + 'a \<times> 'g world" where
  "choice e w seq =
     (if seq = [] then Inl (PyExc ''IndexError'' ''Cannot choose from an empty sequence'')
      else
        (case randbelow e (rng w) (length seq) of
           (i, g') \<Rightarrow>
             if i < length seq then Inr (seq ! i, w\<lparr>rng := g'\<rparr>)
             else Inl (PyExc ''IndexError'' ''list index out of range'')))"

text \<open>The list comprehension of the Selector: the entries that pass the suffix test, in order.\<close>

definition all_files :: "string list \<Rightarrow> string list" where
  "all_files entries = filter (\<lambda>files. endswith (lower files) valid_extensions) entries"

definition random_image_selector2 :: "'g env \<Rightarrow> 'g world \<Rightarrow> pyexc + string option \<times> 'g world" where
  "random_image_selector2 e w =
     (case listdir e image_folder of
        Inl err \<Rightarrow> Inl err
      | Inr entries \<Rightarrow>
          if all_files entries = [] then
            Inr (None, w\<lparr>console := console w @ [''No image files found in the specified folder.'']\<rparr>)
          else
            (case choice e w (all_files entries) of
               Inl err \<Rightarrow> Inl err
             | Inr (random_image_file, w') \<Rightarrow>
                 Inr (Some (path_join image_folder random_image_file), w')))"

section \<open>The Viewer (app_ui.py)\<close>

text \<open>
  The label that shows the image has two Tk options the handler sets, \<open>-image\<close> and
  \<open>-text\<close>, and one Python attribute, \<^verbatim>\<open>image_label.image\<close>, which holds the reference that
  keeps the \<^verbatim>\<open>PhotoImage\<close> alive. \<open>opt_image = None\<close> is the empty \<open>-image\<close> option;
  \<open>attr_image = None\<close> is the attribute not set.
\<close>

record label =
  opt_image :: "photo option"
  opt_text :: string
  opt_borderwidth :: nat
  opt_bg :: string
  attr_image :: "photo option"

record tk_frame =
  frame_width :: "nat option"
  frame_bg :: string
  frame_propagate :: bool

record viewer =
  win_title :: string
  win_geometry :: string
  win_bg :: string
  left_frame :: tk_frame
  right_frame :: tk_frame
  left_widgets :: "(string \<times> string) list"
  image_label :: label

text \<open>
  \<^verbatim>\<open>label.config(image=..., text=...)\<close>. tkinter builds the Tk command from the keyword
  arguments whose value is not \<^verbatim>\<open>None\<close> (\<^verbatim>\<open>Misc._options\<close> skips the others), so a keyword
  passed as \<^verbatim>\<open>None\<close> leaves its option as it was.
\<close>

definition label_config :: "photo option \<Rightarrow> string option \<Rightarrow> label \<Rightarrow> label" where
  "label_config image_kw text_kw l =
     (let l1 = (case image_kw of None \<Rightarrow> l | Some p \<Rightarrow> l\<lparr>opt_image := Some p\<rparr>)
      in case text_kw of None \<Rightarrow> l1 | Some t \<Rightarrow> l1\<lparr>opt_text := t\<rparr>)"

text \<open>
  What the label shows. A Tk label whose \<open>-image\<close> option is set shows the image and not
  its text; the image of a \<^verbatim>\<open>PhotoImage\<close> that Python no longer references is deleted and
  shows as an empty area.
\<close>

datatype display = ShowsImage photo | ShowsText string | ShowsBlank

definition shown :: "label \<Rightarrow> display" where
  "shown l =
     (case opt_image l of
        None \<Rightarrow> ShowsText (opt_text l)
      | Some p \<Rightarrow> if attr_image l = Some p then ShowsImage p else ShowsBlank)"

text \<open>The Pillow and Tk calls of the handler, each with the exception it may raise.\<close>

definition Image_open :: "'g env \<Rightarrow> string \<Rightarrow> pyexc + picture" where
  "Image_open e path =
     (case image_open e path of
        Inl err \<Rightarrow> Inl err
      | Inr (mode, sz) \<Rightarrow>
          Inr \<lparr>pic_file = path, pic_mode = mode, pic_size = sz, pic_filter = None\<rparr>)"

text \<open>
  \<^verbatim>\<open>img.resize(size, resample)\<close> as Pillow computes it. The pixels are loaded first, which is
  where a damaged file raises. An image that already has the size asked for is copied as
  it is. Otherwise the image is resampled to the size, with the filter passed, except that
  for an image of mode \<^verbatim>\<open>"1"\<close> or \<^verbatim>\<open>"P"\<close> Pillow replaces the filter by \<^verbatim>\<open>NEAREST\<close>.
\<close>

definition resize :: "'g env \<Rightarrow> picture \<Rightarrow> nat \<times> nat \<Rightarrow> resample \<Rightarrow> pyexc + picture" where
  "resize e img sz f =
     (case resize_error e img of
        Some err \<Rightarrow> Inl err
      | None \<Rightarrow>
          if pic_size img = sz then Inr img
          else
            Inr (img\<lparr>pic_size := sz,
                     pic_filter :=
                       Some (if pic_mode img = ''1'' \<or> pic_mode img = ''P'' then NEAREST else f)\<rparr>))"

definition PhotoImage :: "'g env \<Rightarrow> 'g world \<Rightarrow> picture \<Rightarrow> pyexc + photo \<times> 'g world" where
  "PhotoImage e w img =
     (case photo_error e img of
        Some err \<Rightarrow> Inl err
      | None \<Rightarrow>
          Inr (\<lparr>photo_name = Suc (tk_images w), photo_pic = img\<rparr>,
               w\<lparr>tk_images := Suc (tk_images w)\<rparr>))"

text \<open>
  The \<^verbatim>\<open>try\<close> block of \<^verbatim>\<open>on_button_click\<close>: the exception raised, if any, with the Viewer and
  the world as they are when the block is left.
\<close>

definition on_button_click_try ::
  "'g env \<Rightarrow> string \<Rightarrow> viewer \<Rightarrow> 'g world \<Rightarrow> pyexc option \<times> viewer \<times> 'g world" where
  "on_button_click_try e image_path v w =
     (case Image_open e image_path of
        Inl exc \<Rightarrow> (Some exc, v, w)
      | Inr img \<Rightarrow>
          (case resize e img (1000, 500) LANCZOS of
             Inl exc \<Rightarrow> (Some exc, v, w)
           | Inr img' \<Rightarrow>
               (case PhotoImage e w img' of
                  Inl exc \<Rightarrow> (Some exc, v, w)
                | Inr (photo_image, w') \<Rightarrow>
                    (case config_error e photo_image of
                       Some exc \<Rightarrow> (Some exc, v, w')
                     | None \<Rightarrow>
                         (None,
                          v\<lparr>image_label :=
                              (label_config (Some photo_image) None (image_label v))
                                \<lparr>attr_image := Some photo_image\<rparr>\<rparr>,
                          w')))))"

text \<open>
  The click handler. \<^verbatim>\<open>if not image_path\<close> holds for \<^verbatim>\<open>None\<close> and for the empty string. The
  call of the Selector is outside the \<^verbatim>\<open>try\<close> block, so what it raises leaves the handler.
\<close>

definition on_button_click :: "'g env \<Rightarrow> viewer \<times> 'g world \<Rightarrow> pyexc + viewer \<times> 'g world" where
  "on_button_click e s =
     (case s of (v, w) \<Rightarrow>
        (case random_image_selector2 e w of
           Inl err \<Rightarrow> Inl err
         | Inr (None, w1) \<Rightarrow>
             Inr (v\<lparr>image_label :=
                      label_config None (Some ''No images found in folder.'') (image_label v)\<rparr>,
                  w1)
         | Inr (Some image_path, w1) \<Rightarrow>
             if image_path = [] then
               Inr (v\<lparr>image_label :=
                        label_config None (Some ''No images found in folder.'') (image_label v)\<rparr>,
                    w1)
             else
               (case on_button_click_try e image_path v w1 of
                  (None, v2, w2) \<Rightarrow> Inr (v2, w2)
                | (Some exc, v2, w2) \<Rightarrow>
                    Inr (v2\<lparr>image_label :=
                             label_config None (Some ''Error loading image.'') (image_label v2)\<rparr>,
                         w2\<lparr>console := console w2 @
                              [''Error loading image '' @ image_path @ '': '' @ exc_msg exc]\<rparr>))))"

text \<open>
  The constructor: the window is configured, the frames and the widgets are built, and the
  handler is called once.
\<close>

definition create_frames :: "tk_frame \<times> tk_frame" where
  "create_frames =
     (\<lparr>frame_width = Some 400, frame_bg = ''pink'', frame_propagate = False\<rparr>,
      \<lparr>frame_width = None, frame_bg = ''light blue'', frame_propagate = True\<rparr>)"

definition create_widgets :: "(string \<times> string) list \<times> label" where
  "create_widgets =
     ([(''Label'', ''Random Photo Selector''), (''Button'', ''Get Random Image'')],
      \<lparr>opt_image = None, opt_text = [], opt_borderwidth = 20, opt_bg = ''light blue'',
       attr_image = None\<rparr>)"

definition built_viewer :: viewer where
  "built_viewer =
     \<lparr>win_title = ''Random Image Viewer'', win_geometry = ''1920x1080'', win_bg = ''yellow'',
      left_frame = fst create_frames, right_frame = snd create_frames,
      left_widgets = fst create_widgets, image_label = snd create_widgets\<rparr>"

definition ImageViewerApp_init :: "'g env \<Rightarrow> 'g world \<Rightarrow> pyexc + viewer \<times> 'g world" where
  "ImageViewerApp_init e w = on_button_click e (built_viewer, w)"

text \<open>
  The value the Selector returns when the generator draws the index \<open>j\<close>, whatever its
  state: the outcomes of the Selector are counted over the draws with this.
\<close>

definition drawn_path :: "'g env \<Rightarrow> 'g world \<Rightarrow> nat \<Rightarrow> pyexc + string option" where
  "drawn_path e w j =
     map_sum id fst (random_image_selector2 (e\<lparr>randbelow := (\<lambda>g n. (j, g))\<rparr>) w)"

section \<open>Sample directories and generators\<close>

text \<open>
  A small generator (it counts up and reduces modulo the bound), and a library that opens
  three files, a true-colour image, a palette image and a true-colour image that already
  has the target size, and fails on every other.
\<close>

definition counting_randbelow :: "nat \<Rightarrow> nat \<Rightarrow> nat \<times> nat" where
  "counting_randbelow g n = (g mod n, Suc g)"

definition sample_open :: "string \<Rightarrow> pyexc + string \<times> nat \<times> nat" where
  "sample_open path =
     (if path = ''enter your image folder/cat.PNG'' then Inr (''RGB'', 640, 480)
      else if path = ''enter your image folder/logo.gif'' then Inr (''P'', 64, 64)
      else if path = ''enter your image folder/banner.bmp'' then Inr (''RGB'', 1000, 500)
      else Inl (PyExc ''UnidentifiedImageError'' ''cannot identify image file''))"

definition sample_env :: "(pyexc + string list) \<Rightarrow> nat env" where
  "sample_env d =
     \<lparr>listdir = (\<lambda>_. d), randbelow = counting_randbelow, image_open = sample_open,
      resize_error = (\<lambda>_. None), photo_error = (\<lambda>_. None), config_error = (\<lambda>_. None)\<rparr>"

definition sample_world :: "'g \<Rightarrow> 'g world" where
  "sample_world seed = \<lparr>rng = seed, console = [], tk_images = 0\<rparr>"

definition missing_directory :: "pyexc + string list" where
  "missing_directory =
     Inl (PyExc ''FileNotFoundError'' ''[Errno 2] No such file or directory'')"

text \<open>
  The photo that the handler makes of the true-colour file, when it is the first Tk
  image, and a run of the program: the constructor on a first listing, then one click of
  the button on a second listing.
\<close>

definition cat_photo :: photo where
  "cat_photo =
     \<lparr>photo_name = 1,
      photo_pic = \<lparr>pic_file = ''enter your image folder/cat.PNG'', pic_mode = ''RGB'',
                   pic_size = (1000, 500), pic_filter = Some LANCZOS\<rparr>\<rparr>"

definition init_then_click ::
  "(pyexc + string list) \<Rightarrow> (pyexc + string list) \<Rightarrow> pyexc + viewer \<times> nat world" where
  "init_then_click d1 d2 =
     (case ImageViewerApp_init (sample_env d1) (sample_world 0) of
        Inl err \<Rightarrow> Inl err
      | Inr s \<Rightarrow> on_button_click (sample_env d2) s)"

section \<open>Facts about the string functions\<close>

lemma endswith1_suffix: "endswith1 s suf = suffix suf s"
proof
  assume "endswith1 s suf"
  then have "drop (length s - length suf) s = suf" by (simp add: endswith1_def)
  then show "suffix suf s" by (metis suffix_drop)
next
  assume "suffix suf s"
  then obtain zs where "s = zs @ suf" by (auto simp: suffix_def)
  then show "endswith1 s suf" by (simp add: endswith1_def)
qed

lemma endswith_iff: "endswith s sufs = (\<exists>suf\<in>set sufs. suffix suf s)"
  by (simp add: endswith_def list_ex_iff endswith1_suffix)

lemma set_all_files:
  "set (all_files entries) = {f \<in> set entries. \<exists>ext\<in>set valid_extensions. suffix ext (lower f)}"
  by (auto simp: all_files_def endswith_iff)

lemma path_join_image_folder:
  "path_join image_folder f = (if startswith_sep f then f else image_folder @ ''/'' @ f)"
  by (simp add: path_join_def image_folder_def endswith_sep_def)

lemma path_join_nonempty: "path_join image_folder f \<noteq> []"
proof (cases "startswith_sep f")
  case True
  then show ?thesis by (auto simp: path_join_image_folder startswith_sep_def)
next
  case False
  then show ?thesis by (simp add: path_join_image_folder)
qed

lemma folder_not_absolute: "\<not> startswith_sep (image_folder @ t)"
  by (simp add: startswith_sep_def image_folder_def)

lemma path_join_inj: "path_join image_folder f = path_join image_folder f' \<Longrightarrow> f = f'"
  using folder_not_absolute [of "''/'' @ f"] folder_not_absolute [of "''/'' @ f'"]
  by (auto simp: path_join_image_folder split: if_splits)

lemma selector_readable:
  assumes "listdir e image_folder = Inr entries"
  shows "random_image_selector2 e w =
     (if all_files entries = [] then
        Inr (None, w\<lparr>console := console w @ [''No image files found in the specified folder.'']\<rparr>)
      else case randbelow e (rng w) (length (all_files entries)) of
        (i, g') \<Rightarrow> if i < length (all_files entries)
           then Inr (Some (path_join image_folder (all_files entries ! i)), w\<lparr>rng := g'\<rparr>)
           else Inl (PyExc ''IndexError'' ''list index out of range''))"
  using assms by (simp add: random_image_selector2_def choice_def split: prod.splits)

lemma drawn_path_readable:
  assumes "listdir e image_folder = Inr entries" "j < length (all_files entries)"
  shows "drawn_path e w j = Inr (Some (path_join image_folder (all_files entries ! j)))"
proof -
  have "listdir (e\<lparr>randbelow := (\<lambda>g n. (j, g))\<rparr>) image_folder = Inr entries"
    using assms(1) by simp
  from selector_readable [OF this] assms(2) show ?thesis
    by (auto simp: drawn_path_def)
qed

lemma one_draw_per_entry:
  assumes "distinct fs" "f \<in> set fs"
  shows "card {j. j < length fs \<and> fs ! j = f} = 1"
proof -
  from assms obtain i where i: "i < length fs" "fs ! i = f"
    by (auto simp: in_set_conv_nth)
  have "{j. j < length fs \<and> fs ! j = f} = {i}"
    using assms(1) i by (auto simp: nth_eq_iff_index_eq)
  then show ?thesis by simp
qed

lemma sample_files:
  "all_files [''notes.txt'', ''cat.PNG'', ''dog.jpeg'', ''readme.md''] = [''cat.PNG'', ''dog.jpeg'']"
  by (simp add: all_files_def endswith_def endswith1_def lower_def lower_char_def valid_extensions_def)

section \<open>The Selector chooses among the matching entries\<close>

text \<open>
  Claim C1. When the directory can be listed and some entry matches, the Selector returns
  the directory joined with the entry at the drawn position of the filtered list. That
  entry is an entry of the listing whose lowercased name ends with one of the five
  suffixes, and the filtered list holds exactly the entries with such a name, whatever the
  case of their letters. The choice is uniform: the names of a listing are distinct, and
  of the \<open>n\<close> indices the generator can draw, exactly one gives the path of any given
  matching entry.
\<close>

theorem selector_uniform_choice:
  assumes "listdir e image_folder = Inr entries"
    and "distinct entries"
    and "all_files entries \<noteq> []"
    and "randbelow e (rng w) (length (all_files entries)) = (i, g')"
    and "i < length (all_files entries)"
  shows "random_image_selector2 e w =
           Inr (Some (path_join image_folder (all_files entries ! i)), w\<lparr>rng := g'\<rparr>)
       \<and> all_files entries ! i \<in> set entries
       \<and> (\<exists>ext\<in>set valid_extensions. suffix ext (lower (all_files entries ! i)))
       \<and> set (all_files entries) =
           {f \<in> set entries. \<exists>ext\<in>set valid_extensions. suffix ext (lower f)}
       \<and> (\<forall>f\<in>set (all_files entries).
            card {j. j < length (all_files entries) \<and>
                     drawn_path e w j = Inr (Some (path_join image_folder f))} = 1)"
proof -
  let ?fs = "all_files entries"
  have sel: "random_image_selector2 e w = Inr (Some (path_join image_folder (?fs ! i)), w\<lparr>rng := g'\<rparr>)"
    using assms(3,4,5) by (simp add: selector_readable [OF assms(1)])
  have mem: "?fs ! i \<in> set ?fs" using assms(5) by simp
  then have in_entries: "?fs ! i \<in> set entries"
    and suf: "\<exists>ext\<in>set valid_extensions. suffix ext (lower (?fs ! i))"
    by (simp_all add: set_all_files)
  have dist: "distinct ?fs" using assms(2) by (simp add: all_files_def)
  have uni: "card {j. j < length ?fs \<and> drawn_path e w j = Inr (Some (path_join image_folder f))} = 1"
    if "f \<in> set ?fs" for f
  proof -
    have "{j. j < length ?fs \<and> drawn_path e w j = Inr (Some (path_join image_folder f))}
        = {j. j < length ?fs \<and> ?fs ! j = f}"
      by (auto simp: drawn_path_readable [OF assms(1)] dest: path_join_inj)
    then show ?thesis using one_draw_per_entry [OF dist that] by simp
  qed
  show ?thesis using sel in_entries suf uni by (simp add: set_all_files)
qed

theorem selector_uniform_choice_witness:
  "random_image_selector2 (sample_env (Inr [''notes.txt'', ''cat.PNG'', ''dog.jpeg'', ''readme.md'']))
       (sample_world 5)
     = Inr (Some ''enter your image folder/dog.jpeg'', \<lparr>rng = 6, console = [], tk_images = 0\<rparr>)
   \<and> card {j. j < 2 \<and>
         drawn_path (sample_env (Inr [''notes.txt'', ''cat.PNG'', ''dog.jpeg'', ''readme.md'']))
           (sample_world 5) j = Inr (Some ''enter your image folder/cat.PNG'')} = 1"
proof -
  let ?entries = "[''notes.txt'', ''cat.PNG'', ''dog.jpeg'', ''readme.md'']"
  have h1: "listdir (sample_env (Inr ?entries)) image_folder = Inr ?entries"
    by (simp add: sample_env_def)
  have h2: "distinct ?entries" by simp
  have h3: "all_files ?entries \<noteq> []" by (simp add: sample_files)
  have len: "length (all_files ?entries) = 2" by (simp add: sample_files)
  have h4: "randbelow (sample_env (Inr ?entries)) (rng (sample_world 5)) (length (all_files ?entries)) = (1, 6)"
    unfolding len by (simp add: sample_env_def sample_world_def counting_randbelow_def)
  have h5: "1 < length (all_files ?entries)" by (simp add: sample_files)
  have p: "path_join image_folder ''dog.jpeg'' = ''enter your image folder/dog.jpeg''"
    "path_join image_folder ''cat.PNG'' = ''enter your image folder/cat.PNG''"
    by (simp_all add: path_join_def startswith_sep_def endswith_sep_def image_folder_def)
  from selector_uniform_choice [OF h1 h2 h3 h4 h5] show ?thesis
    unfolding len by (simp add: sample_files sample_world_def p)
qed

section \<open>Facts about the branches of the Selector\<close>

lemma all_files_empty_iff:
  "all_files entries = [] \<longleftrightarrow>
     (\<forall>f\<in>set entries. \<not> (\<exists>ext\<in>set valid_extensions. suffix ext (lower f)))"
  by (auto simp: all_files_def filter_empty_conv endswith_iff)

lemma selector_unreadable:
  "listdir e image_folder = Inl err \<Longrightarrow> random_image_selector2 e w = Inl err"
  by (simp add: random_image_selector2_def)

lemma sample_no_files: "all_files [''notes.txt'', ''jpg'', ''photo.jpg.bak''] = []"
  by (simp add: all_files_def endswith_def endswith1_def lower_def lower_char_def valid_extensions_def)

lemma selector_path_nonempty:
  assumes "random_image_selector2 e w = Inr (Some p, w1)"
  shows "p \<noteq> []"
  using assms path_join_nonempty
  by (auto simp: random_image_selector2_def split: sum.splits if_splits prod.splits)

lemma selector_absent_world:
  assumes "random_image_selector2 e w = Inr (None, w1)"
  shows "w1 = w\<lparr>console := console w @ [''No image files found in the specified folder.'']\<rparr>"
  using assms
  by (auto simp: random_image_selector2_def split: sum.splits if_splits prod.splits)

lemma selector_absent_listing:
  assumes "random_image_selector2 e w = Inr (None, w')"
  shows "\<exists>entries. listdir e image_folder = Inr entries
       \<and> (\<forall>f\<in>set entries. \<not> (\<exists>ext\<in>set valid_extensions. suffix ext (lower f)))"
  using assms
  by (auto simp: random_image_selector2_def all_files_empty_iff
      split: sum.splits if_splits prod.splits)

section \<open>The Selector when nothing matches\<close>

text \<open>
  Claim C4. When the directory can be listed and no entry of the listing has a lowercased
  name ending with a recognised suffix, the Selector returns \<^verbatim>\<open>None\<close>: it raises nothing, the
  generator is not used, and one line is printed.
\<close>

theorem selector_none_without_match:
  assumes "listdir e image_folder = Inr entries"
    and "\<forall>f\<in>set entries. \<not> (\<exists>ext\<in>set valid_extensions. suffix ext (lower f))"
  shows "random_image_selector2 e w =
           Inr (None, w\<lparr>console := console w @ [''No image files found in the specified folder.'']\<rparr>)"
proof -
  have "all_files entries = []" using assms(2) by (simp add: all_files_empty_iff)
  then show ?thesis by (simp add: selector_readable [OF assms(1)])
qed

theorem selector_none_without_match_witness:
  "random_image_selector2 (sample_env (Inr [''notes.txt'', ''jpg'', ''photo.jpg.bak''])) (sample_world 3)
     = Inr (None, \<lparr>rng = 3, console = [''No image files found in the specified folder.''],
                   tk_images = 0\<rparr>)"
proof -
  let ?entries = "[''notes.txt'', ''jpg'', ''photo.jpg.bak'']"
  have h1: "listdir (sample_env (Inr ?entries)) image_folder = Inr ?entries"
    by (simp add: sample_env_def)
  have "all_files ?entries = []" by (rule sample_no_files)
  then have h2: "\<forall>f\<in>set ?entries. \<not> (\<exists>ext\<in>set valid_extensions. suffix ext (lower f))"
    by (simp only: all_files_empty_iff)
  from selector_none_without_match [OF h1 h2, of "sample_world 3"] show ?thesis
    by (simp add: sample_world_def)
qed

section \<open>The Selector when the directory cannot be listed\<close>

text \<open>
  Claim C3 says that a missing or unreadable directory is handled as "no matching files".
  It is not: on a directory whose listing raises \<^verbatim>\<open>FileNotFoundError\<close> the Selector raises that
  exception, and so does the click handler, while on an empty directory the Selector
  returns \<^verbatim>\<open>None\<close>.
\<close>

theorem missing_directory_counterexample:
  "random_image_selector2 (sample_env missing_directory) (sample_world 0)
     = Inl (PyExc ''FileNotFoundError'' ''[Errno 2] No such file or directory'')
   \<and> random_image_selector2 (sample_env (Inr [])) (sample_world 0)
     = Inr (None, \<lparr>rng = 0, console = [''No image files found in the specified folder.''],
                   tk_images = 0\<rparr>)
   \<and> on_button_click (sample_env missing_directory) (built_viewer, sample_world 0)
     = Inl (PyExc ''FileNotFoundError'' ''[Errno 2] No such file or directory'')"
  by (simp add: random_image_selector2_def on_button_click_def sample_env_def missing_directory_def
      sample_world_def all_files_def)

text \<open>
  Claim C3, amended. When listing the configured directory raises, the exception leaves the
  Selector as it is: the Selector does not return \<^verbatim>\<open>None\<close>, and the click handler, which
  calls the Selector outside its \<^verbatim>\<open>try\<close> block, raises the same exception. The Selector
  returns \<^verbatim>\<open>None\<close> only when the listing succeeds and no entry of it matches.
\<close>

theorem listdir_error_leaves_selector:
  assumes "listdir e image_folder = Inl err"
  shows "random_image_selector2 e w = Inl err
       \<and> (\<forall>w'. random_image_selector2 e w \<noteq> Inr (None, w'))
       \<and> on_button_click e (v, w) = Inl err
       \<and> (\<forall>w2 w'. random_image_selector2 e2 w2 = Inr (None, w') \<longrightarrow>
             (\<exists>entries. listdir e2 image_folder = Inr entries
                \<and> (\<forall>f\<in>set entries. \<not> (\<exists>ext\<in>set valid_extensions. suffix ext (lower f)))))"
  using assms selector_absent_listing [of e2]
  by (simp add: selector_unreadable on_button_click_def)

theorem listdir_error_leaves_selector_witness:
  "random_image_selector2 (sample_env missing_directory) (sample_world 7) = Inl (PyExc ''FileNotFoundError'' ''[Errno 2] No such file or directory'')
   \<and> on_button_click (sample_env missing_directory) (built_viewer, sample_world 7)
      = Inl (PyExc ''FileNotFoundError'' ''[Errno 2] No such file or directory'')
   \<and> (\<exists>entries. listdir (sample_env (Inr [''notes.txt'', ''jpg'', ''photo.jpg.bak''])) image_folder
           = Inr entries
         \<and> (\<forall>f\<in>set entries. \<not> (\<exists>ext\<in>set valid_extensions. suffix ext (lower f))))"
proof -
  let ?e2 = "sample_env (Inr [''notes.txt'', ''jpg'', ''photo.jpg.bak''])"
  have h: "listdir (sample_env missing_directory) image_folder
      = Inl (PyExc ''FileNotFoundError'' ''[Errno 2] No such file or directory'')"
    by (simp add: sample_env_def missing_directory_def)
  have l2: "listdir ?e2 image_folder = Inr [''notes.txt'', ''jpg'', ''photo.jpg.bak'']"
    by (simp add: sample_env_def)
  have n: "random_image_selector2 ?e2 (sample_world 7) =
      Inr (None, (sample_world 7)
             \<lparr>console := console (sample_world (7::nat)) @ [''No image files found in the specified folder.'']\<rparr>)"
    by (simp add: selector_readable [OF l2] sample_no_files)
  from listdir_error_leaves_selector [OF h, of "sample_world 7" built_viewer ?e2] n
  show ?thesis by blast
qed

section \<open>Facts about the click handler\<close>

lemma click_absent:
  assumes "random_image_selector2 e w = Inr (None, w1)"
  shows "on_button_click e (v, w) =
     Inr (v\<lparr>image_label := (image_label v)\<lparr>opt_text := ''No images found in folder.''\<rparr>\<rparr>, w1)"
  using assms by (simp add: on_button_click_def label_config_def)

lemma click_path:
  assumes "random_image_selector2 e w = Inr (Some p, w1)"
  shows "on_button_click e (v, w) =
     (case on_button_click_try e p v w1 of
        (None, v2, w2) \<Rightarrow> Inr (v2, w2)
      | (Some exc, v2, w2) \<Rightarrow>
          Inr (v2\<lparr>image_label := (image_label v2)\<lparr>opt_text := ''Error loading image.''\<rparr>\<rparr>,
               w2\<lparr>console := console w2 @ [''Error loading image '' @ p @ '': '' @ exc_msg exc]\<rparr>))"
  using assms selector_path_nonempty [OF assms]
  by (simp add: on_button_click_def label_config_def split: prod.splits option.splits)

lemma resize_result:
  assumes "resize e img sz f = Inr img'"
  shows "pic_file img' = pic_file img \<and> pic_mode img' = pic_mode img \<and> pic_size img' = sz
       \<and> pic_filter img' =
           (if pic_size img = sz then pic_filter img
            else Some (if pic_mode img = ''1'' \<or> pic_mode img = ''P'' then NEAREST else f))"
  using assms by (auto simp: resize_def split: option.splits if_splits)

lemma try_success:
  assumes "on_button_click_try e p v w = (None, v2, w2)"
  shows "\<exists>mode sz img'. image_open e p = Inr (mode, sz)
       \<and> resize e \<lparr>pic_file = p, pic_mode = mode, pic_size = sz, pic_filter = None\<rparr>
             (1000, 500) LANCZOS = Inr img'
       \<and> v2 = v\<lparr>image_label := (image_label v)
              \<lparr>opt_image := Some \<lparr>photo_name = Suc (tk_images w), photo_pic = img'\<rparr>,
               attr_image := Some \<lparr>photo_name = Suc (tk_images w), photo_pic = img'\<rparr>\<rparr>\<rparr>
       \<and> w2 = w\<lparr>tk_images := Suc (tk_images w)\<rparr>"
  using assms
  by (auto simp: on_button_click_try_def Image_open_def PhotoImage_def label_config_def
      split: sum.splits option.splits)

lemma try_success_display:
  assumes "on_button_click_try e p v w = (None, v2, w2)"
  shows "\<exists>ph. shown (image_label v2) = ShowsImage ph \<and> photo_name ph = Suc (tk_images w)
       \<and> pic_file (photo_pic ph) = p \<and> pic_size (photo_pic ph) = (1000, 500)"
proof -
  from try_success [OF assms] obtain mode sz img' where
    r: "resize e \<lparr>pic_file = p, pic_mode = mode, pic_size = sz, pic_filter = None\<rparr>
          (1000, 500) LANCZOS = Inr img'"
    and v2: "v2 = v\<lparr>image_label := (image_label v)
              \<lparr>opt_image := Some \<lparr>photo_name = Suc (tk_images w), photo_pic = img'\<rparr>,
               attr_image := Some \<lparr>photo_name = Suc (tk_images w), photo_pic = img'\<rparr>\<rparr>\<rparr>"
    by blast
  from resize_result [OF r] have "pic_file img' = p" "pic_size img' = (1000, 500)" by simp_all
  with v2 show ?thesis by (simp add: shown_def)
qed

lemma try_failure:
  assumes "on_button_click_try e p v w = (Some exc, v2, w2)"
  shows "v2 = v \<and> rng w2 = rng w \<and> console w2 = console w"
  using assms
  by (auto simp: on_button_click_try_def Image_open_def resize_def PhotoImage_def
      split: sum.splits option.splits)

lemma built_viewer_no_image: "opt_image (image_label built_viewer) = None"
  by (simp add: built_viewer_def create_widgets_def)

section \<open>Facts about the sample runs\<close>

lemma sample_cat_files: "all_files [''cat.PNG''] = [''cat.PNG'']"
  by (simp add: all_files_def endswith_def endswith1_def lower_def lower_char_def valid_extensions_def)

lemma sample_broken_files: "all_files [''broken.jpg''] = [''broken.jpg'']"
  by (simp add: all_files_def endswith_def endswith1_def lower_def lower_char_def valid_extensions_def)

lemma sample_notes_files: "all_files [''notes.txt''] = []"
  by (simp add: all_files_def endswith_def endswith1_def lower_def lower_char_def valid_extensions_def)

lemma sample_paths:
  "path_join image_folder ''cat.PNG'' = ''enter your image folder/cat.PNG''"
  "path_join image_folder ''broken.jpg'' = ''enter your image folder/broken.jpg''"
  by (simp_all add: path_join_def startswith_sep_def endswith_sep_def image_folder_def)

lemma sample_selector_cat:
  "random_image_selector2 (sample_env (Inr [''cat.PNG''])) \<lparr>rng = g, console = c, tk_images = k\<rparr>
     = Inr (Some ''enter your image folder/cat.PNG'', \<lparr>rng = Suc g, console = c, tk_images = k\<rparr>)"
  by (simp add: random_image_selector2_def choice_def sample_env_def sample_cat_files
      counting_randbelow_def sample_paths)

lemma sample_selector_broken:
  "random_image_selector2 (sample_env (Inr [''broken.jpg''])) \<lparr>rng = g, console = c, tk_images = k\<rparr>
     = Inr (Some ''enter your image folder/broken.jpg'', \<lparr>rng = Suc g, console = c, tk_images = k\<rparr>)"
  by (simp add: random_image_selector2_def choice_def sample_env_def sample_broken_files
      counting_randbelow_def sample_paths)

lemma sample_selector_notes:
  "random_image_selector2 (sample_env (Inr [''notes.txt''])) \<lparr>rng = g, console = c, tk_images = k\<rparr>
     = Inr (None, \<lparr>rng = g, console = c @ [''No image files found in the specified folder.''],
                   tk_images = k\<rparr>)"
  by (simp add: random_image_selector2_def sample_env_def sample_notes_files)

lemma sample_try_cat:
  "on_button_click_try (sample_env d) ''enter your image folder/cat.PNG'' v
       \<lparr>rng = g, console = c, tk_images = k\<rparr>
     = (None,
        v\<lparr>image_label := (image_label v)
            \<lparr>opt_image := Some \<lparr>photo_name = Suc k,
                 photo_pic = \<lparr>pic_file = ''enter your image folder/cat.PNG'',
                              pic_mode = ''RGB'', pic_size = (1000, 500), pic_filter = Some LANCZOS\<rparr>\<rparr>,
             attr_image := Some \<lparr>photo_name = Suc k,
                 photo_pic = \<lparr>pic_file = ''enter your image folder/cat.PNG'',
                              pic_mode = ''RGB'', pic_size = (1000, 500), pic_filter = Some LANCZOS\<rparr>\<rparr>\<rparr>\<rparr>,
        \<lparr>rng = g, console = c, tk_images = Suc k\<rparr>)"
  by (simp add: on_button_click_try_def Image_open_def resize_def PhotoImage_def label_config_def
      sample_env_def sample_open_def)

lemma sample_try_broken:
  "on_button_click_try (sample_env d) ''enter your image folder/broken.jpg'' v w
     = (Some (PyExc ''UnidentifiedImageError'' ''cannot identify image file''), v, w)"
  by (simp add: on_button_click_try_def Image_open_def sample_env_def sample_open_def)

lemma sample_logo_files: "all_files [''logo.gif''] = [''logo.gif'']"
  by (simp add: all_files_def endswith_def endswith1_def lower_def lower_char_def valid_extensions_def)

lemma sample_logo_path:
  "path_join image_folder ''logo.gif'' = ''enter your image folder/logo.gif''"
  by (simp add: path_join_def startswith_sep_def endswith_sep_def image_folder_def)

lemma sample_selector_logo:
  "random_image_selector2 (sample_env (Inr [''logo.gif''])) \<lparr>rng = g, console = c, tk_images = k\<rparr>
     = Inr (Some ''enter your image folder/logo.gif'', \<lparr>rng = Suc g, console = c, tk_images = k\<rparr>)"
  by (simp add: random_image_selector2_def choice_def sample_env_def sample_logo_files
      counting_randbelow_def sample_logo_path)

lemma sample_try_logo:
  "on_button_click_try (sample_env d) ''enter your image folder/logo.gif'' v
       \<lparr>rng = g, console = c, tk_images = k\<rparr>
     = (None,
        v\<lparr>image_label := (image_label v)
            \<lparr>opt_image := Some \<lparr>photo_name = Suc k,
                 photo_pic = \<lparr>pic_file = ''enter your image folder/logo.gif'',
                              pic_mode = ''P'', pic_size = (1000, 500), pic_filter = Some NEAREST\<rparr>\<rparr>,
             attr_image := Some \<lparr>photo_name = Suc k,
                 photo_pic = \<lparr>pic_file = ''enter your image folder/logo.gif'',
                              pic_mode = ''P'', pic_size = (1000, 500), pic_filter = Some NEAREST\<rparr>\<rparr>\<rparr>\<rparr>,
        \<lparr>rng = g, console = c, tk_images = Suc k\<rparr>)"
  by (simp add: on_button_click_try_def Image_open_def resize_def PhotoImage_def label_config_def
      sample_env_def sample_open_def)


lemma sample_init_cat:
  "ImageViewerApp_init (sample_env (Inr [''cat.PNG''])) (sample_world 0)
     = Inr (built_viewer\<lparr>image_label := (image_label built_viewer)
              \<lparr>opt_image := Some cat_photo, attr_image := Some cat_photo\<rparr>\<rparr>,
            \<lparr>rng = 1, console = [], tk_images = 1\<rparr>)"
  by (simp add: ImageViewerApp_init_def sample_world_def click_path [OF sample_selector_cat]
      sample_try_cat cat_photo_def)

section \<open>The Selector is a function of the seed and the listing\<close>

text \<open>
  Claim C7. Two runs of the Selector with the same generator, the same seed (the state of
  the generator) and the same listing of the directory return the same value, a path,
  \<^verbatim>\<open>None\<close> or an exception, and leave the generator in the same state, whatever else differs
  between the two runs (what the console holds, what the other library calls would answer).
  The value is the one the seed decides: when entries match, the second run returns the
  entry of the filtered list at the index that the generator draws from the first run's
  seed.
\<close>

theorem selector_deterministic:
  assumes "listdir e1 image_folder = listdir e2 image_folder"
    and "randbelow e1 = randbelow e2"
    and "rng w1 = rng w2"
  shows "map_sum id (\<lambda>r. (fst r, rng (snd r))) (random_image_selector2 e1 w1)
       = map_sum id (\<lambda>r. (fst r, rng (snd r))) (random_image_selector2 e2 w2)
     \<and> (\<forall>entries i g'.
          listdir e1 image_folder = Inr entries \<and> all_files entries \<noteq> []
          \<and> randbelow e1 (rng w1) (length (all_files entries)) = (i, g')
          \<and> i < length (all_files entries)
          \<longrightarrow> map_sum id (\<lambda>r. (fst r, rng (snd r))) (random_image_selector2 e2 w2)
              = Inr (Some (path_join image_folder (all_files entries ! i)), g'))"
proof (intro conjI allI impI)
  show "map_sum id (\<lambda>r. (fst r, rng (snd r))) (random_image_selector2 e1 w1)
      = map_sum id (\<lambda>r. (fst r, rng (snd r))) (random_image_selector2 e2 w2)"
    using assms
    by (auto simp: random_image_selector2_def choice_def split: sum.splits prod.splits)
next
  fix entries i g'
  assume a: "listdir e1 image_folder = Inr entries \<and> all_files entries \<noteq> []
          \<and> randbelow e1 (rng w1) (length (all_files entries)) = (i, g')
          \<and> i < length (all_files entries)"
  then have l2: "listdir e2 image_folder = Inr entries" using assms(1) by simp
  have "randbelow e2 (rng w2) (length (all_files entries)) = (i, g')"
    using a assms(2,3) by simp
  with a show "map_sum id (\<lambda>r. (fst r, rng (snd r))) (random_image_selector2 e2 w2)
              = Inr (Some (path_join image_folder (all_files entries ! i)), g')"
    by (simp add: selector_readable [OF l2])
qed

theorem selector_deterministic_witness:
  "map_sum id (\<lambda>r. (fst r, rng (snd r)))
     (random_image_selector2 (sample_env (Inr [''notes.txt'', ''cat.PNG'', ''dog.jpeg'', ''readme.md'']))
        \<lparr>rng = 5, console = [], tk_images = 0\<rparr>)
   = map_sum id (\<lambda>r. (fst r, rng (snd r)))
     (random_image_selector2 (sample_env (Inr [''notes.txt'', ''cat.PNG'', ''dog.jpeg'', ''readme.md'']))
        \<lparr>rng = 5, console = [''Error loading image x: y''], tk_images = 9\<rparr>)
   \<and> map_sum id (\<lambda>r. (fst r, rng (snd r)))
     (random_image_selector2 (sample_env (Inr [''notes.txt'', ''cat.PNG'', ''dog.jpeg'', ''readme.md'']))
        \<lparr>rng = 5, console = [''Error loading image x: y''], tk_images = 9\<rparr>)
     = Inr (Some ''enter your image folder/dog.jpeg'', 6)
   \<and> map_sum id (\<lambda>r. (fst r, rng (snd r)))
     (random_image_selector2 (sample_env (Inr [''notes.txt'', ''cat.PNG'', ''dog.jpeg'', ''readme.md'']))
        \<lparr>rng = 4, console = [''Error loading image x: y''], tk_images = 9\<rparr>)
     = Inr (Some ''enter your image folder/cat.PNG'', 5)"
proof -
  let ?entries = "[''notes.txt'', ''cat.PNG'', ''dog.jpeg'', ''readme.md'']"
  let ?e = "sample_env (Inr ?entries)"
  let ?busy = "[''Error loading image x: y'']"
  have h1: "listdir ?e image_folder = listdir ?e image_folder" by simp
  have h2: "randbelow ?e = randbelow ?e" by simp
  have h3: "rng \<lparr>rng = 5::nat, console = [], tk_images = 0\<rparr>
      = rng \<lparr>rng = 5::nat, console = ?busy, tk_images = 9\<rparr>" by simp
  have h4: "rng \<lparr>rng = 4::nat, console = [], tk_images = 0\<rparr>
      = rng \<lparr>rng = 4::nat, console = ?busy, tk_images = 9\<rparr>" by simp
  have l: "listdir ?e image_folder = Inr ?entries" by (simp add: sample_env_def)
  have ne: "all_files ?entries \<noteq> []" by (simp add: sample_files)
  have len: "length (all_files ?entries) = 2" by (simp add: sample_files)
  have d5: "randbelow ?e (rng \<lparr>rng = 5::nat, console = [], tk_images = 0\<rparr>)
      (length (all_files ?entries)) = (1, 6)"
    unfolding len by (simp add: sample_env_def counting_randbelow_def)
  have d4: "randbelow ?e (rng \<lparr>rng = 4::nat, console = [], tk_images = 0\<rparr>)
      (length (all_files ?entries)) = (0, 5)"
    unfolding len by (simp add: sample_env_def counting_randbelow_def)
  have i5: "(1::nat) < length (all_files ?entries)" and i4: "(0::nat) < length (all_files ?entries)"
    by (simp_all add: sample_files)
  have p: "path_join image_folder (all_files ?entries ! 1) = ''enter your image folder/dog.jpeg''"
    "path_join image_folder (all_files ?entries ! 0) = ''enter your image folder/cat.PNG''"
    by (simp_all add: sample_files path_join_def startswith_sep_def endswith_sep_def image_folder_def)
  from selector_deterministic [OF h1 h2 h3] l ne d5 i5
  have same: "map_sum id (\<lambda>r. (fst r, rng (snd r)))
        (random_image_selector2 ?e \<lparr>rng = 5, console = [], tk_images = 0\<rparr>)
      = map_sum id (\<lambda>r. (fst r, rng (snd r)))
        (random_image_selector2 ?e \<lparr>rng = 5, console = ?busy, tk_images = 9\<rparr>)"
    and dog: "map_sum id (\<lambda>r. (fst r, rng (snd r)))
        (random_image_selector2 ?e \<lparr>rng = 5, console = ?busy, tk_images = 9\<rparr>)
      = Inr (Some (path_join image_folder (all_files ?entries ! 1)), 6)"
    by blast+
  from selector_deterministic [OF h1 h2 h4] l ne d4 i4
  have cat: "map_sum id (\<lambda>r. (fst r, rng (snd r)))
        (random_image_selector2 ?e \<lparr>rng = 4, console = ?busy, tk_images = 9\<rparr>)
      = Inr (Some (path_join image_folder (all_files ?entries ! 0)), 5)"
    by blast
  from same dog cat show ?thesis unfolding p by blast
qed

section \<open>The absence branch of the click handler\<close>

text \<open>
  Claim C10. When the Selector returns \<^verbatim>\<open>None\<close>, the click handler returns the Viewer it was
  given with the text of the label set to the "no images found" message and nothing else
  changed: the \<^verbatim>\<open>image_label.image\<close> attribute, the label's image option, the window and the
  frames are as before, and no Tk image is created. Outside the Viewer, the only change is
  the line the Selector printed.
\<close>

theorem absence_branch_changes_only_text:
  assumes "random_image_selector2 e w = Inr (None, w1)"
  shows "on_button_click e (v, w) =
           Inr (v\<lparr>image_label := (image_label v)\<lparr>opt_text := ''No images found in folder.''\<rparr>\<rparr>,
                w\<lparr>console := console w @ [''No image files found in the specified folder.'']\<rparr>)"
  using click_absent [OF assms] selector_absent_world [OF assms] by simp

theorem absence_branch_changes_only_text_witness:
  "on_button_click (sample_env (Inr [''notes.txt'']))
       (built_viewer\<lparr>image_label := (image_label built_viewer)
           \<lparr>opt_image := Some cat_photo, attr_image := Some cat_photo\<rparr>\<rparr>,
        \<lparr>rng = 1, console = [], tk_images = 1\<rparr>)
     = Inr (built_viewer\<lparr>image_label := (image_label built_viewer)
              \<lparr>opt_image := Some cat_photo, attr_image := Some cat_photo,
               opt_text := ''No images found in folder.''\<rparr>\<rparr>,
            \<lparr>rng = 1, console = [''No image files found in the specified folder.''], tk_images = 1\<rparr>)"
  using absence_branch_changes_only_text [OF sample_selector_notes [of 1 "[]" 1],
      of "built_viewer\<lparr>image_label := (image_label built_viewer)
           \<lparr>opt_image := Some cat_photo, attr_image := Some cat_photo\<rparr>\<rparr>"]
  by simp

text \<open>
  Claim C2 says that the absence branch ends with the placeholder text shown and no stale
  image visible. The run below constructs the Viewer on a directory holding \<^verbatim>\<open>cat.PNG\<close>, which
  is displayed, and then clicks the button when the directory holds only \<^verbatim>\<open>notes.txt\<close>. The
  handler passes \<^verbatim>\<open>image=None\<close>, which tkinter drops, so the label keeps its image option, and
  the photo of \<^verbatim>\<open>cat.PNG\<close> is still what the label shows; the text is configured but hidden.
\<close>

theorem absence_after_image_keeps_image:
  "map_sum id (\<lambda>s. (shown (image_label (fst s)), opt_text (image_label (fst s))))
       (init_then_click (Inr [''cat.PNG'']) (Inr [''notes.txt'']))
     = Inr (ShowsImage cat_photo, ''No images found in folder.'')"
  by (simp add: init_then_click_def sample_init_cat click_absent [OF sample_selector_notes] shown_def)

section \<open>The loading branch of the click handler\<close>

text \<open>
  Claim C5 says that when the file loads, the display ends holding an image of the target
  resolution produced by a quality-preserving resampling filter, in place of what was shown.
  The run below constructs the Viewer on a directory holding \<^verbatim>\<open>cat.PNG\<close>, which is displayed,
  and then clicks the button when the directory holds only \<^verbatim>\<open>logo.gif\<close>, a palette image of
  64 by 64 pixels. The handler passes \<^verbatim>\<open>LANCZOS\<close> to \<^verbatim>\<open>resize\<close> without converting the image
  from its palette mode, and for that mode Pillow resamples with \<^verbatim>\<open>NEAREST\<close>. The new photo
  does replace the photo of \<^verbatim>\<open>cat.PNG\<close> and is 1000 by 500, but it was produced by the
  nearest-neighbour filter.
\<close>

theorem palette_image_resized_with_nearest:
  "map_sum id (\<lambda>s. shown (image_label (fst s)))
       (init_then_click (Inr [''cat.PNG'']) (Inr [''logo.gif'']))
     = Inr (ShowsImage
         \<lparr>photo_name = 2,
          photo_pic = \<lparr>pic_file = ''enter your image folder/logo.gif'', pic_mode = ''P'',
                       pic_size = (1000, 500), pic_filter = Some NEAREST\<rparr>\<rparr>)"
  by (simp add: init_then_click_def sample_init_cat click_path [OF sample_selector_logo]
      sample_try_logo shown_def)




text \<open>
  Claim C6 says that when loading raises, the display ends showing the "error loading image"
  text. The run below constructs the Viewer on a directory holding \<^verbatim>\<open>cat.PNG\<close>, which is
  displayed, and then clicks the button when the directory holds only \<^verbatim>\<open>broken.jpg\<close>, which
  does not open. The handler returns normally, the failure is printed, and the text of the
  label is the error message; but \<^verbatim>\<open>image=None\<close> is dropped by tkinter, so the label still shows
  the photo of \<^verbatim>\<open>cat.PNG\<close> and not the text.
\<close>

theorem load_error_after_image_keeps_image:
  "map_sum id (\<lambda>s. (shown (image_label (fst s)), opt_text (image_label (fst s)), console (snd s)))
       (init_then_click (Inr [''cat.PNG'']) (Inr [''broken.jpg'']))
     = Inr (ShowsImage cat_photo, ''Error loading image.'',
            [''Error loading image enter your image folder/broken.jpg: cannot identify image file''])"
  by (simp add: init_then_click_def sample_init_cat click_path [OF sample_selector_broken]
      sample_try_broken shown_def)

section \<open>The constructor\<close>

text \<open>
  Claim C9 says that after construction the display shows a selected image or one of the
  placeholder texts. The folder configured in the source is a placeholder that does not
  exist: listing it raises, the exception leaves the click handler and the constructor, and
  no Viewer is constructed.
\<close>

theorem constructor_raises_counterexample:
  "ImageViewerApp_init (sample_env missing_directory) (sample_world 0)
     = Inl (PyExc ''FileNotFoundError'' ''[Errno 2] No such file or directory'')"
  by (simp add: ImageViewerApp_init_def on_button_click_def selector_unreadable sample_env_def
      missing_directory_def)

text \<open>
  Claim C9, amended. The constructor builds the window and the widgets and runs the click
  handler once. When listing the directory raises, the constructor raises that exception.
  When the directory can be listed, the constructor returns, and before any press of the
  button the label shows: the "no images found" text when no entry matches; otherwise, for
  the matching entry at the index the generator draws, the image of that file at size 1000
  by 500 when loading it raises nothing, and the "error loading image" text, with the
  failure printed, when loading it raises.
\<close>

theorem constructor_runs_one_cycle:
  "ImageViewerApp_init e w = on_button_click e (built_viewer, w)
   \<and> (\<forall>err. listdir e image_folder = Inl err \<longrightarrow> ImageViewerApp_init e w = Inl err)
   \<and> (\<forall>entries. listdir e image_folder = Inr entries \<and> all_files entries = [] \<longrightarrow>
         (\<exists>v' w'. ImageViewerApp_init e w = Inr (v', w')
            \<and> shown (image_label v') = ShowsText ''No images found in folder.''))
   \<and> (\<forall>entries i g'.
         listdir e image_folder = Inr entries \<and> all_files entries \<noteq> []
         \<and> randbelow e (rng w) (length (all_files entries)) = (i, g')
         \<and> i < length (all_files entries) \<longrightarrow>
         (\<exists>v' w'. ImageViewerApp_init e w = Inr (v', w')
            \<and> (case fst (on_button_click_try e (path_join image_folder (all_files entries ! i))
                          built_viewer (w\<lparr>rng := g'\<rparr>)) of
                 None \<Rightarrow>
                   (\<exists>ph. shown (image_label v') = ShowsImage ph
                      \<and> pic_file (photo_pic ph) = path_join image_folder (all_files entries ! i)
                      \<and> pic_size (photo_pic ph) = (1000, 500))
               | Some exc \<Rightarrow>
                   shown (image_label v') = ShowsText ''Error loading image.''
                   \<and> console w' = console w @
                       [''Error loading image '' @ path_join image_folder (all_files entries ! i)
                          @ '': '' @ exc_msg exc])))"
proof (intro conjI allI impI)
  show "ImageViewerApp_init e w = on_button_click e (built_viewer, w)"
    by (simp add: ImageViewerApp_init_def)
next
  fix err
  assume "listdir e image_folder = Inl err"
  then show "ImageViewerApp_init e w = Inl err"
    by (simp add: ImageViewerApp_init_def on_button_click_def selector_unreadable)
next
  fix entries
  assume a: "listdir e image_folder = Inr entries \<and> all_files entries = []"
  then have l: "listdir e image_folder = Inr entries" by simp
  have sel: "random_image_selector2 e w =
      Inr (None, w\<lparr>console := console w @ [''No image files found in the specified folder.'']\<rparr>)"
    using a by (simp add: selector_readable [OF l])
  show "\<exists>v' w'. ImageViewerApp_init e w = Inr (v', w')
            \<and> shown (image_label v') = ShowsText ''No images found in folder.''"
    by (simp add: ImageViewerApp_init_def click_absent [OF sel] shown_def built_viewer_no_image)
next
  fix entries i g'
  assume a: "listdir e image_folder = Inr entries \<and> all_files entries \<noteq> []
         \<and> randbelow e (rng w) (length (all_files entries)) = (i, g')
         \<and> i < length (all_files entries)"
  let ?p = "path_join image_folder (all_files entries ! i)"
  let ?w1 = "w\<lparr>rng := g'\<rparr>"
  from a have l: "listdir e image_folder = Inr entries" by simp
  have sel: "random_image_selector2 e w = Inr (Some ?p, ?w1)"
    using a by (simp add: selector_readable [OF l])
  obtain x v2 w2 where t: "on_button_click_try e ?p built_viewer ?w1 = (x, v2, w2)"
    by (cases "on_button_click_try e ?p built_viewer ?w1") auto
  show "\<exists>v' w'. ImageViewerApp_init e w = Inr (v', w')
            \<and> (case fst (on_button_click_try e ?p built_viewer ?w1) of
                 None \<Rightarrow>
                   (\<exists>ph. shown (image_label v') = ShowsImage ph
                      \<and> pic_file (photo_pic ph) = ?p
                      \<and> pic_size (photo_pic ph) = (1000, 500))
               | Some exc \<Rightarrow>
                   shown (image_label v') = ShowsText ''Error loading image.''
                   \<and> console w' = console w @
                       [''Error loading image '' @ ?p @ '': '' @ exc_msg exc])"
  proof (cases x)
    case None
    with t have t': "on_button_click_try e ?p built_viewer ?w1 = (None, v2, w2)" by simp
    have run: "ImageViewerApp_init e w = Inr (v2, w2)"
      by (simp add: ImageViewerApp_init_def click_path [OF sel] t')
    from try_success_display [OF t'] obtain ph where
      "shown (image_label v2) = ShowsImage ph" "pic_file (photo_pic ph) = ?p"
      "pic_size (photo_pic ph) = (1000, 500)"
      by blast
    with run show ?thesis by (simp add: t')
  next
    case (Some exc)
    with t have t': "on_button_click_try e ?p built_viewer ?w1 = (Some exc, v2, w2)" by simp
    have run: "ImageViewerApp_init e w =
        Inr (v2\<lparr>image_label := (image_label v2)\<lparr>opt_text := ''Error loading image.''\<rparr>\<rparr>,
             w2\<lparr>console := console w2 @ [''Error loading image '' @ ?p @ '': '' @ exc_msg exc]\<rparr>)"
      by (simp add: ImageViewerApp_init_def click_path [OF sel] t')
    from try_failure [OF t'] have "v2 = built_viewer" "console w2 = console w" by simp_all
    with run show ?thesis by (simp add: t' shown_def built_viewer_no_image)
  qed
qed

theorem constructor_runs_one_cycle_witness:
  "ImageViewerApp_init (sample_env missing_directory) (sample_world 3)
     = Inl (PyExc ''FileNotFoundError'' ''[Errno 2] No such file or directory'')
   \<and> (\<exists>v' w'. ImageViewerApp_init (sample_env (Inr [''notes.txt''])) (sample_world 3) = Inr (v', w')
         \<and> shown (image_label v') = ShowsText ''No images found in folder.'')
   \<and> (\<exists>v' w' ph.
         ImageViewerApp_init (sample_env (Inr [''notes.txt'', ''cat.PNG'', ''dog.jpeg'', ''readme.md'']))
           (sample_world 4) = Inr (v', w')
         \<and> shown (image_label v') = ShowsImage ph
         \<and> pic_file (photo_pic ph) = ''enter your image folder/cat.PNG''
         \<and> pic_size (photo_pic ph) = (1000, 500))
   \<and> (\<exists>v' w'.
         ImageViewerApp_init (sample_env (Inr [''notes.txt'', ''cat.PNG'', ''dog.jpeg'', ''readme.md'']))
           (sample_world 5) = Inr (v', w')
         \<and> shown (image_label v') = ShowsText ''Error loading image.''
         \<and> console w' =
             [''Error loading image enter your image folder/dog.jpeg: cannot identify image file''])"
proof -
  let ?entries = "[''notes.txt'', ''cat.PNG'', ''dog.jpeg'', ''readme.md'']"
  let ?e = "sample_env (Inr ?entries)"
  have m: "listdir (sample_env missing_directory) image_folder
      = Inl (PyExc ''FileNotFoundError'' ''[Errno 2] No such file or directory'')"
    by (simp add: sample_env_def missing_directory_def)
  from constructor_runs_one_cycle [of "sample_env missing_directory" "sample_world 3"] m
  have c1: "ImageViewerApp_init (sample_env missing_directory) (sample_world 3)
     = Inl (PyExc ''FileNotFoundError'' ''[Errno 2] No such file or directory'')"
    by blast
  have n: "listdir (sample_env (Inr [''notes.txt''])) image_folder = Inr [''notes.txt'']
      \<and> all_files [''notes.txt''] = []"
    by (simp add: sample_env_def sample_notes_files)
  from constructor_runs_one_cycle [of "sample_env (Inr [''notes.txt''])" "sample_world 3"] n
  have c2: "\<exists>v' w'. ImageViewerApp_init (sample_env (Inr [''notes.txt''])) (sample_world 3) = Inr (v', w')
         \<and> shown (image_label v') = ShowsText ''No images found in folder.''"
    by blast
  have len: "length (all_files ?entries) = 2" by (simp add: sample_files)
  have p: "path_join image_folder (all_files ?entries ! 0) = ''enter your image folder/cat.PNG''"
    "path_join image_folder (all_files ?entries ! 1) = ''enter your image folder/dog.jpeg''"
    by (simp_all add: sample_files path_join_def startswith_sep_def endswith_sep_def image_folder_def)
  have d4: "listdir ?e image_folder = Inr ?entries \<and> all_files ?entries \<noteq> []
      \<and> randbelow ?e (rng (sample_world 4)) (length (all_files ?entries)) = (0, 5)
      \<and> 0 < length (all_files ?entries)"
    unfolding len by (simp add: sample_files sample_env_def sample_world_def counting_randbelow_def)
  have d5: "listdir ?e image_folder = Inr ?entries \<and> all_files ?entries \<noteq> []
      \<and> randbelow ?e (rng (sample_world 5)) (length (all_files ?entries)) = (1, 6)
      \<and> 1 < length (all_files ?entries)"
    unfolding len by (simp add: sample_files sample_env_def sample_world_def counting_randbelow_def)
  have t4: "fst (on_button_click_try ?e ''enter your image folder/cat.PNG'' built_viewer
        ((sample_world 4)\<lparr>rng := 5\<rparr>)) = None"
    by (simp add: sample_world_def sample_try_cat)
  have t5: "fst (on_button_click_try ?e ''enter your image folder/dog.jpeg'' built_viewer
        ((sample_world 5)\<lparr>rng := 6\<rparr>))
      = Some (PyExc ''UnidentifiedImageError'' ''cannot identify image file'')"
    by (simp add: on_button_click_try_def Image_open_def sample_env_def sample_open_def)
  from constructor_runs_one_cycle [of ?e "sample_world 4"] d4
  have "\<exists>v' w'. ImageViewerApp_init ?e (sample_world 4) = Inr (v', w')
      \<and> (case fst (on_button_click_try ?e (path_join image_folder (all_files ?entries ! 0))
                    built_viewer ((sample_world 4)\<lparr>rng := 5\<rparr>)) of
           None \<Rightarrow>
             (\<exists>ph. shown (image_label v') = ShowsImage ph
                \<and> pic_file (photo_pic ph) = path_join image_folder (all_files ?entries ! 0)
                \<and> pic_size (photo_pic ph) = (1000, 500))
         | Some exc \<Rightarrow>
             shown (image_label v') = ShowsText ''Error loading image.''
             \<and> console w' = console (sample_world (4::nat)) @
                 [''Error loading image '' @ path_join image_folder (all_files ?entries ! 0)
                    @ '': '' @ exc_msg exc])"
    by blast
  then have c3: "\<exists>v' w' ph. ImageViewerApp_init ?e (sample_world 4) = Inr (v', w')
         \<and> shown (image_label v') = ShowsImage ph
         \<and> pic_file (photo_pic ph) = ''enter your image folder/cat.PNG''
         \<and> pic_size (photo_pic ph) = (1000, 500)"
    unfolding p by (simp add: t4)
  have cw: "console (sample_world (5::nat)) = []" by (simp add: sample_world_def)
  from constructor_runs_one_cycle [of ?e "sample_world 5"] d5
  have "\<exists>v' w'. ImageViewerApp_init ?e (sample_world 5) = Inr (v', w')
      \<and> (case fst (on_button_click_try ?e (path_join image_folder (all_files ?entries ! 1))
                    built_viewer ((sample_world 5)\<lparr>rng := 6\<rparr>)) of
           None \<Rightarrow>
             (\<exists>ph. shown (image_label v') = ShowsImage ph
                \<and> pic_file (photo_pic ph) = path_join image_folder (all_files ?entries ! 1)
                \<and> pic_size (photo_pic ph) = (1000, 500))
         | Some exc \<Rightarrow>
             shown (image_label v') = ShowsText ''Error loading image.''
             \<and> console w' = console (sample_world (5::nat)) @
                 [''Error loading image '' @ path_join image_folder (all_files ?entries ! 1)
                    @ '': '' @ exc_msg exc])"
    by blast
  then have c4: "\<exists>v' w'. ImageViewerApp_init ?e (sample_world 5) = Inr (v', w')
         \<and> shown (image_label v') = ShowsText ''Error loading image.''
         \<and> console w' =
             [''Error loading image enter your image folder/dog.jpeg: cannot identify image file'']"
    unfolding p by (simp add: t5 cw)
  from c1 c2 c3 c4 show ?thesis by blast
qed

end
